theory Spec2Isabelle
  imports Complex_Main
begin

section \<open>Numbers and arrays of the script\<close>

text \<open>
  The dashboard script computes with JavaScript numbers. They are modelled as real
  numbers; the two non-numeric results a computation of the script can produce are kept
  as constructors of their own: \<open>JNull\<close> for \<^verbatim>\<open>null\<close> ("absent") and \<open>JNaN\<close> for
  the result of \<^verbatim>\<open>0 / 0\<close>, which HOL's total division would silently turn into 0.
\<close>

datatype jsnum = JNull | JNaN | JNum real

text \<open>
  \<^verbatim>\<open>arr.slice(start)\<close>: a negative start counts from the end and is clamped at the
  beginning of the array, a start beyond the end gives the empty array.
\<close>

definition slice_from :: "int \<Rightarrow> 'a list \<Rightarrow> 'a list" where
  "slice_from start xs =
     (let len = int (length xs);
          k = (if start < 0 then max (len + start) 0 else min start len)
      in drop (nat k) xs)"

text \<open>\<^verbatim>\<open>arr.reduce((acc, val) => acc + val, 0)\<close>\<close>

definition reduce_sum :: "real list \<Rightarrow> real" where
  "reduce_sum xs = foldl (\<lambda>acc val. acc + val) 0 xs"

section \<open>Indicator computations (third variant of the script, lines 726--783)\<close>

text \<open>
  The body of the \<^verbatim>\<open>for (let i = 1; i <= period; i++)\<close> loop of \<^verbatim>\<open>calculateRSI\<close>:
  the pair is \<^verbatim>\<open>(gains, losses)\<close>.
\<close>

definition rsi_step :: "real list \<Rightarrow> real \<times> real \<Rightarrow> nat \<Rightarrow> real \<times> real" where
  "rsi_step prices gl i =
     (case gl of (gains, losses) \<Rightarrow>
        (let change = prices ! i - prices ! (i - 1)
         in if change \<ge> 0 then (gains + change, losses)
            else (gains, losses + \<bar>change\<bar>)))"

text \<open>
  \<^verbatim>\<open>calculateRSI(prices, period = 14)\<close>. The argument is always an array (the
  script passes the result of \<^verbatim>\<open>slice\<close>), so the \<^verbatim>\<open>!prices\<close> half of the guard is
  never taken; the other half, \<^verbatim>\<open>prices.length <= period\<close>, keeps every index of
  the loop in range. With \<^verbatim>\<open>period = 0\<close> and a non-empty array
  the loop does not run and both averages are \<^verbatim>\<open>0 / 0\<close>, so the function returns NaN.
\<close>

definition calculateRSI :: "real list \<Rightarrow> nat \<Rightarrow> jsnum" where
  "calculateRSI prices period =
     (if length prices \<le> period then JNull
      else (case foldl (rsi_step prices) (0, 0) [1..<Suc period] of (gains, losses) \<Rightarrow>
        if period = 0 then JNaN
        else (let avgGain = gains / real period;
                  avgLoss = losses / real period
              in if avgLoss = 0 then JNum 100
                 else (let rs = avgGain / avgLoss
                       in JNum (100 - 100 / (1 + rs))))))"

text \<open>
  The moving averages of \<^verbatim>\<open>fetchMarketChart\<close> (lines 740--741 and 743--744) are the
  same two statements with the constants 50 and 200:
  \<^verbatim>\<open>const lastN = prices.slice(-N); const avgN = lastN.reduce(...) / lastN.length;\<close>
  They are factored here into one function of the constant. On an empty array the
  division is \<^verbatim>\<open>0 / 0\<close>.
\<close>

definition movingAverage :: "real list \<Rightarrow> nat \<Rightarrow> jsnum" where
  "movingAverage prices window =
     (let lastN = slice_from (- int window) prices
      in if lastN = [] then JNaN
         else JNum (reduce_sum lastN / real (length lastN)))"

text \<open>
  The parsed body of a \<^verbatim>\<open>market_chart\<close> response, as far as the script looks at it:
  \<^verbatim>\<open>null\<close>, an object without \<^verbatim>\<open>prices\<close>, or an object whose \<^verbatim>\<open>prices\<close> is an
  array of \<^verbatim>\<open>[timestampMs, price]\<close> pairs.
\<close>

datatype chart_json = JsonNull | JsonNoPrices | JsonPrices "(real \<times> real) list"

record indicators =
  avg50 :: jsnum
  avg200 :: jsnum
  prices30 :: "real list"
  rsi14 :: jsnum

definition absent_indicators :: indicators where
  "absent_indicators = \<lparr>avg50 = JNull, avg200 = JNull, prices30 = [], rsi14 = JNull\<rparr>"

text \<open>The part of \<^verbatim>\<open>fetchMarketChart\<close> after the response has been parsed (lines 735--749).\<close>

definition chartIndicators :: "chart_json \<Rightarrow> indicators" where
  "chartIndicators json =
     (case json of
        JsonNull \<Rightarrow> absent_indicators
      | JsonNoPrices \<Rightarrow> absent_indicators
      | JsonPrices ps \<Rightarrow>
          if length ps = 0 then absent_indicators
          else (let prices = map snd ps
                in \<lparr>avg50 = movingAverage prices 50,
                    avg200 = movingAverage prices 200,
                    prices30 = slice_from (- 30) prices,
                    rsi14 = calculateRSI (slice_from (- 15) prices) 14\<rparr>))"

text \<open>
  The volume to market cap ratio of the row renderer (lines 678--680):
  \<^verbatim>\<open>coin.market_cap && coin.market_cap > 0 ? coin.total_volume / coin.market_cap : null\<close>.
  A \<^verbatim>\<open>null\<close> market cap is falsy.
\<close>

definition volumeToMarketCapRatio :: "real \<Rightarrow> real option \<Rightarrow> jsnum" where
  "volumeToMarketCapRatio total_volume market_cap =
     (case market_cap of
        None \<Rightarrow> JNull
      | Some mc \<Rightarrow> if mc \<noteq> 0 \<and> mc > 0 then JNum (total_volume / mc) else JNull)"

section \<open>The RSI as the specification words it\<close>

text \<open>The deltas of a series, oldest first: element \<open>i\<close> is \<open>series[i+1] - series[i]\<close>.\<close>

definition deltas :: "real list \<Rightarrow> real list" where
  "deltas series = map (\<lambda>i. series ! Suc i - series ! i) [0..<length series - 1]"

definition last_n :: "nat \<Rightarrow> 'a list \<Rightarrow> 'a list" where
  "last_n n xs = drop (length xs - n) xs"

definition gain_of :: "real \<Rightarrow> real" where
  "gain_of d = (if d \<ge> 0 then d else 0)"

definition loss_of :: "real \<Rightarrow> real" where
  "loss_of d = (if d \<ge> 0 then 0 else - d)"

text \<open>
  The formula of the specification on a list of deltas: average gain and average loss
  over the deltas, 100 when the average loss is zero, \<open>100 - 100 / (1 + avgGain / avgLoss)\<close>
  otherwise.
\<close>

definition rsi_formula :: "real list \<Rightarrow> nat \<Rightarrow> real" where
  "rsi_formula ds period =
     (let avgGain = sum_list (map gain_of ds) / real period;
          avgLoss = sum_list (map loss_of ds) / real period
      in if avgLoss = 0 then 100 else 100 - 100 / (1 + avgGain / avgLoss))"

text \<open>
  \<open>rsi\<close> as the specification states it: absent below \<open>period + 1\<close> points, otherwise the
  formula over the last \<open>period\<close> deltas of the series.
\<close>

definition rsi_spec :: "real list \<Rightarrow> nat \<Rightarrow> jsnum" where
  "rsi_spec series period =
     (if length series < period + 1 then JNull
      else JNum (rsi_formula (last_n period (deltas series)) period))"

section \<open>Number formatting (lines 939--949)\<close>

definition units :: "string list" where
  "units = ['''', ''K'', ''M'', ''B'', ''T'', ''Q'']"

text \<open>The decimal digits of a natural number.\<close>

fun digits :: "nat \<Rightarrow> string" where
  "digits n =
     (if n < 10 then [''0123456789'' ! n]
      else digits (n div 10) @ [''0123456789'' ! (n mod 10)])"

declare digits.simps [simp del]

text \<open>
  \<^verbatim>\<open>x.toFixed(f)\<close> after ECMA-262: the sign is split off, \<open>n\<close> is the integer for which
  \<open>n / 10^f - x\<close> is closest to zero (the larger one on a tie), its digits are padded
  with zeros to \<open>f + 1\<close> places and the point is put before the last \<open>f\<close> of them.
  From \<open>10^21\<close> on JavaScript prints the number in exponent notation instead; that
  range is not modelled and yields \<open>None\<close>.
\<close>

definition toFixed :: "real \<Rightarrow> nat \<Rightarrow> string option" where
  "toFixed x f =
     (if \<bar>x\<bar> \<ge> 10 ^ 21 then None
      else (let n = nat \<lfloor>\<bar>x\<bar> * 10 ^ f + 1 / 2\<rfloor>;
                m = digits n;
                m' = (if f = 0 then m
                      else (let padded = replicate (f + 1 - length m) (CHR ''0'') @ m;
                                k = length padded - f
                            in take k padded @ ''.'' @ drop k padded))
            in Some ((if x < 0 then ''-'' else '''') @ m')))"

text \<open>
  The loop \<^verbatim>\<open>while (scaled >= 1000 && unitIndex < units.length - 1)\<close>; it returns the
  final \<^verbatim>\<open>(scaled, unitIndex)\<close>.
\<close>

function scale_loop :: "real \<Rightarrow> nat \<Rightarrow> real \<times> nat" where
  "scale_loop scaled unitIndex =
     (if scaled \<ge> 1000 \<and> unitIndex < length units - 1
      then scale_loop (scaled / 1000) (unitIndex + 1)
      else (scaled, unitIndex))"
  by pat_completeness auto
termination
  by (relation "measure (\<lambda>(scaled, unitIndex). length units - 1 - unitIndex)") auto

declare scale_loop.simps [simp del]

text \<open>\<^verbatim>\<open>formatLargeNumber(value)\<close>; \<open>None\<close> as argument is \<^verbatim>\<open>null\<close> or \<^verbatim>\<open>undefined\<close>.\<close>

definition formatLargeNumber :: "real option \<Rightarrow> string option" where
  "formatLargeNumber v =
     (case v of
        None \<Rightarrow> Some ''-''
      | Some x \<Rightarrow>
          (case scale_loop x 0 of (scaled, unitIndex) \<Rightarrow>
             (case toFixed scaled (if scaled < 100 then 2 else 0) of
                None \<Rightarrow> None
              | Some t \<Rightarrow> Some (''$'' @ t @ units ! unitIndex))))"

section \<open>Enrichment of a snapshot (lines 635--650 and 726--750)\<close>

text \<open>
  One entry of the \<^verbatim>\<open>coins/markets\<close> response with the fields the script reads.
  \<^verbatim>\<open>None\<close> is a JSON \<^verbatim>\<open>null\<close>.
\<close>

record coin =
  coin_id :: string
  coin_name :: string
  coin_symbol :: string
  coin_image :: string
  current_price :: real
  market_cap :: "real option"
  market_cap_rank :: "nat option"
  total_volume :: real
  price_change_percentage_24h :: "real option"
  sparkline_in_7d :: "real list option"

text \<open>
  \<^verbatim>\<open>Object.assign({}, coin, extra)\<close>: the snapshot entry together with the four
  indicator fields.
\<close>

record enriched = indicators +
  base :: coin

text \<open>
  The outcome of one \<^verbatim>\<open>await fetch(url)\<close> followed by \<^verbatim>\<open>await resp.json()\<close>:
  either of them throws (\<open>TransportError\<close>: network failure or unparseable body), or
  the parsed body is there.
\<close>

datatype 'a fetched = TransportError | Response 'a

datatype error = FetchFailed

text \<open>
  The market data provider during one enrichment: the outcome of the
  \<^verbatim>\<open>market_chart\<close> request for each coin id.
\<close>

type_synonym network = "string \<Rightarrow> chart_json fetched"

definition fetchMarketChart :: "network \<Rightarrow> string \<Rightarrow> error + indicators" where
  "fetchMarketChart net cid =
     (case net cid of
        TransportError \<Rightarrow> Inl FetchFailed
      | Response json \<Rightarrow> Inr (chartIndicators json))"

definition assign :: "coin \<Rightarrow> indicators \<Rightarrow> enriched" where
  "assign c extra =
     \<lparr>avg50 = avg50 extra, avg200 = avg200 extra, prices30 = prices30 extra,
      rsi14 = rsi14 extra, base = c\<rparr>"

text \<open>
  The \<^verbatim>\<open>async (coin) => { try { ... } catch (err) { ... } }\<close> callback of
  \<^verbatim>\<open>data.map\<close>: it never rejects.
\<close>

definition enrichCoin :: "network \<Rightarrow> coin \<Rightarrow> enriched" where
  "enrichCoin net c =
     (case fetchMarketChart net (coin_id c) of
        Inr extra \<Rightarrow> assign c extra
      | Inl err \<Rightarrow>
          assign c \<lparr>avg50 = JNull, avg200 = JNull, prices30 = [], rsi14 = JNull\<rparr>)"

text \<open>
  \<^verbatim>\<open>Promise.all\<close> over promises that all fulfil: every promise stores its value in
  the slot of its own index when it settles, and the array of slots is the result once
  no slot is empty. \<open>completion\<close> is the order in which the promises settle;
  \<open>None\<close> means that the join is still pending.
\<close>

definition fill_slot :: "'a list \<Rightarrow> 'a option list \<Rightarrow> nat \<Rightarrow> 'a option list" where
  "fill_slot results slots i =
     (if i < length slots then slots[i := Some (results ! i)] else slots)"

definition promiseAll :: "'a list \<Rightarrow> nat list \<Rightarrow> 'a list option" where
  "promiseAll results completion =
     those (foldl (fill_slot results) (replicate (length results) None) completion)"

definition enrich :: "network \<Rightarrow> coin list \<Rightarrow> nat list \<Rightarrow> enriched list option" where
  "enrich net data completion = promiseAll (map (enrichCoin net) data) completion"

text \<open>All indicator fields present, as a computable predicate.\<close>

definition is_number :: "jsnum \<Rightarrow> bool" where
  "is_number v = (case v of JNum r \<Rightarrow> True | _ \<Rightarrow> False)"

definition all_absent :: "enriched \<Rightarrow> bool" where
  "all_absent e =
     (avg50 e = JNull \<and> avg200 e = JNull \<and> rsi14 e = JNull \<and> prices30 e = [])"

definition fully_populated :: "enriched \<Rightarrow> bool" where
  "fully_populated e =
     (is_number (avg50 e) \<and> is_number (avg200 e) \<and> is_number (rsi14 e) \<and> prices30 e \<noteq> [])"

section \<open>The refresh cycle as a state machine\<close>

text \<open>
  The script runs on the single-threaded event loop of the browser: a handler runs
  until it returns or reaches an \<^verbatim>\<open>await\<close>, and is resumed by a later event. The
  model has one step per such run. \<^verbatim>\<open>fetchData\<close> (lines 92--157 and 616--713, which
  agree in everything but the indicator fields and the text of the table rows) has
  three of them: from the call to \<^verbatim>\<open>await fetch(url)\<close>, from the arrival of the
  snapshot to \<^verbatim>\<open>await Promise.all(...)\<close>, and from the join to the end. The click
  handlers are those of lines 41--84.
\<close>

datatype order = MARKET_CAP_DESC | VOLUME_DESC

datatype timeframe = TF7d | TF30d

datatype request = SnapshotRequest order | HistoryRequest string

record chart =
  chartData :: "real list"
  borderColor :: string

text \<open>
  A suspended activation of \<^verbatim>\<open>fetchData\<close>: the order its URL was built with, and
  the snapshot once it has arrived.
\<close>

record cycle =
  cycleOrder :: order
  cycleData :: "coin list option"

text \<open>
  The script's variables, the part of the page it writes, and the browser's side:
  the pending timeouts, the suspended activations and the log of requests sent.
  \<open>coinsOrder\<close> is a history variable: the order of the cycle that wrote \<open>coinsData\<close>.
  Timer handles are positive integers, so a stored handle is truthy.
\<close>

record state =
  currentOrder :: order
  chartTimeframe :: timeframe
  refreshTimer :: "nat option"
  coinsData :: "enriched list"
  chartInstances :: "nat \<Rightarrow> chart option"
  loadingVisible :: bool
  loadingText :: string
  contentHidden :: bool
  tableCanvases :: "nat list"
  marketActive :: bool
  volumeActive :: bool
  chart7Active :: bool
  chart30Active :: bool
  liveTimers :: "nat list"
  nextTimer :: nat
  inflight :: "(nat \<times> cycle) list"
  nextCycle :: nat
  requests :: "request list"
  coinsOrder :: "order option"

definition error_message :: string where
  "error_message = ''Error fetching data. Please try again later.''"

definition green :: string where
  "green = ''#10b981''"

definition red :: string where
  "red = ''#ef4444''"

text \<open>
  \<^verbatim>\<open>drawChart\<close>: the series and the colour of the chart it creates.
  \<^verbatim>\<open>null >= 0\<close> is true in JavaScript.
\<close>

definition drawChart :: "timeframe \<Rightarrow> enriched \<Rightarrow> chart" where
  "drawChart tf c =
     (if tf = TF30d \<and> length (prices30 c) > 0
      then (let dataSeries = prices30 c;
                trend = dataSeries ! (length dataSeries - 1) - dataSeries ! 0
            in \<lparr>chartData = dataSeries,
                borderColor = (if trend \<ge> 0 then green else red)\<rparr>)
      else \<lparr>chartData = (case sparkline_in_7d (base c) of Some p \<Rightarrow> p | None \<Rightarrow> []),
            borderColor =
              (case price_change_percentage_24h (base c) of
                 None \<Rightarrow> green
               | Some p \<Rightarrow> if p \<ge> 0 then green else red)\<rparr>)"

text \<open>
  \<^verbatim>\<open>updateAllCharts\<close>: \<^verbatim>\<open>coinsData.forEach((coin, index) => drawChart(...))\<close>.
  \<^verbatim>\<open>document.getElementById\<close> returns \<^verbatim>\<open>null\<close> for a canvas that is not in the
  table, and \<^verbatim>\<open>drawChart\<close> then throws, which ends the loop: the result is the chart
  table so far and whether the loop ran to its end.
\<close>

fun draw_from :: "timeframe \<Rightarrow> nat list \<Rightarrow> nat \<Rightarrow> enriched list \<Rightarrow>
    (nat \<Rightarrow> chart option) \<Rightarrow> (nat \<Rightarrow> chart option) \<times> bool" where
  "draw_from tf canvases index [] ci = (ci, True)"
| "draw_from tf canvases index (c # cs) ci =
     (if index \<in> set canvases
      then draw_from tf canvases (Suc index) cs (ci(index := Some (drawChart tf c)))
      else (ci, False))"

definition updateAllCharts :: "state \<Rightarrow> (nat \<Rightarrow> chart option) \<times> bool" where
  "updateAllCharts s =
     draw_from (chartTimeframe s) (tableCanvases s) 0 (coinsData s) (chartInstances s)"

text \<open>\<^verbatim>\<open>fetchData\<close> from its call to \<^verbatim>\<open>await fetch(url)\<close>.\<close>

definition fetchData :: "state \<Rightarrow> state" where
  "fetchData s =
     (let s1 = s\<lparr>loadingVisible := True, contentHidden := True, tableCanvases := []\<rparr>;
          s2 = (case refreshTimer s1 of
                  None \<Rightarrow> s1
                | Some t \<Rightarrow> s1\<lparr>liveTimers := removeAll t (liveTimers s1),
                                refreshTimer := None\<rparr>)
      in s2\<lparr>requests := requests s2 @ [SnapshotRequest (currentOrder s2)],
            inflight := inflight s2 @
              [(nextCycle s2, \<lparr>cycleOrder = currentOrder s2, cycleData = None\<rparr>)],
            nextCycle := Suc (nextCycle s2)\<rparr>)"

definition drop_cycle :: "nat \<Rightarrow> (nat \<times> cycle) list \<Rightarrow> (nat \<times> cycle) list" where
  "drop_cycle k cs = filter (\<lambda>kc. fst kc \<noteq> k) cs"

text \<open>
  The snapshot request of activation \<open>k\<close> settles. A failure (also a body that is
  not an array, on which \<^verbatim>\<open>data.map\<close> throws) runs the \<^verbatim>\<open>catch\<close> block; a snapshot
  starts one history request per coin and suspends at \<^verbatim>\<open>Promise.all\<close>.
\<close>

definition snapshotArrives :: "nat \<Rightarrow> coin list fetched \<Rightarrow> state \<Rightarrow> state" where
  "snapshotArrives k res s =
     (case map_of (inflight s) k of
        None \<Rightarrow> s
      | Some c \<Rightarrow>
          (case cycleData c of
             Some d \<Rightarrow> s
           | None \<Rightarrow>
               (case res of
                  TransportError \<Rightarrow>
                    s\<lparr>inflight := drop_cycle k (inflight s), loadingText := error_message\<rparr>
                | Response data \<Rightarrow>
                    s\<lparr>requests := requests s @ map (\<lambda>c. HistoryRequest (coin_id c)) data,
                      inflight := map (\<lambda>kc. if fst kc = k
                                     then (k, c\<lparr>cycleData := Some data\<rparr>) else kc)
                                   (inflight s)\<rparr>)))"

text \<open>
  The join of activation \<open>k\<close> resumes: \<^verbatim>\<open>coinsData\<close> is assigned, one row per record
  is appended to the table body, the charts are drawn, the loading indicator is hidden
  and the timer is armed. An exception of \<^verbatim>\<open>updateAllCharts\<close> is caught by the
  \<^verbatim>\<open>catch\<close> block.
\<close>

definition historiesSettle :: "nat \<Rightarrow> network \<Rightarrow> nat list \<Rightarrow> state \<Rightarrow> state" where
  "historiesSettle k net completion s =
     (case map_of (inflight s) k of
        None \<Rightarrow> s
      | Some c \<Rightarrow>
          (case cycleData c of
             None \<Rightarrow> s
           | Some data \<Rightarrow>
               (case enrich net data completion of
                  None \<Rightarrow> s
                | Some recs \<Rightarrow>
                    (let s1 = s\<lparr>inflight := drop_cycle k (inflight s),
                                 coinsData := recs,
                                 coinsOrder := Some (cycleOrder c),
                                 tableCanvases := tableCanvases s @ [0..<length recs]\<rparr>
                     in (case updateAllCharts s1 of (ci, finished) \<Rightarrow>
                           if finished
                           then s1\<lparr>chartInstances := ci,
                                   loadingVisible := False,
                                   contentHidden := False,
                                   refreshTimer := Some (nextTimer s1),
                                   liveTimers := liveTimers s1 @ [nextTimer s1],
                                   nextTimer := Suc (nextTimer s1)\<rparr>
                           else s1\<lparr>chartInstances := ci,
                                   loadingText := error_message\<rparr>)))))"

text \<open>A pending timeout fires: the browser calls \<^verbatim>\<open>fetchData\<close>.\<close>

definition timerFires :: "nat \<Rightarrow> state \<Rightarrow> state" where
  "timerFires t s =
     (if t \<in> set (liveTimers s)
      then fetchData (s\<lparr>liveTimers := removeAll t (liveTimers s)\<rparr>)
      else s)"

text \<open>The four click handlers (lines 47--81).\<close>

definition clickMarketCap :: "state \<Rightarrow> state" where
  "clickMarketCap s =
     (if currentOrder s \<noteq> MARKET_CAP_DESC
      then fetchData (s\<lparr>currentOrder := MARKET_CAP_DESC,
                        marketActive := True, volumeActive := False\<rparr>)
      else s)"

definition clickVolume :: "state \<Rightarrow> state" where
  "clickVolume s =
     (if currentOrder s \<noteq> VOLUME_DESC
      then fetchData (s\<lparr>currentOrder := VOLUME_DESC,
                        volumeActive := True, marketActive := False\<rparr>)
      else s)"

definition clickChart7 :: "state \<Rightarrow> state" where
  "clickChart7 s =
     (if chartTimeframe s \<noteq> TF7d
      then (let s1 = s\<lparr>chartTimeframe := TF7d, chart7Active := True, chart30Active := False\<rparr>
            in s1\<lparr>chartInstances := fst (updateAllCharts s1)\<rparr>)
      else s)"

definition clickChart30 :: "state \<Rightarrow> state" where
  "clickChart30 s =
     (if chartTimeframe s \<noteq> TF30d
      then (let s1 = s\<lparr>chartTimeframe := TF30d, chart30Active := True, chart7Active := False\<rparr>
            in s1\<lparr>chartInstances := fst (updateAllCharts s1)\<rparr>)
      else s)"

datatype event =
    DOMContentLoaded
  | ClickMarketCap
  | ClickVolume
  | ClickChart7
  | ClickChart30
  | SnapshotArrives nat "coin list fetched"
  | HistoriesSettle nat network "nat list"
  | TimerFires nat

fun step :: "state \<Rightarrow> event \<Rightarrow> state" where
  "step s DOMContentLoaded = fetchData s"
| "step s ClickMarketCap = clickMarketCap s"
| "step s ClickVolume = clickVolume s"
| "step s ClickChart7 = clickChart7 s"
| "step s ClickChart30 = clickChart30 s"
| "step s (SnapshotArrives k res) = snapshotArrives k res s"
| "step s (HistoriesSettle k net completion) = historiesSettle k net completion s"
| "step s (TimerFires t) = timerFires t s"

definition run :: "state \<Rightarrow> event list \<Rightarrow> state" where
  "run s evs = foldl step s evs"

text \<open>
  The state when the page has loaded (lines 26--34). The markup of the page is not part
  of the script: the loading text it starts with is a parameter, and the buttons start
  as the defaults of the two mode variables.
\<close>

definition initial_state :: "string \<Rightarrow> state" where
  "initial_state txt =
     \<lparr>currentOrder = MARKET_CAP_DESC, chartTimeframe = TF7d, refreshTimer = None,
      coinsData = [], chartInstances = (\<lambda>i. None),
      loadingVisible = True, loadingText = txt, contentHidden = True,
      tableCanvases = [], marketActive = True, volumeActive = False,
      chart7Active = True, chart30Active = False,
      liveTimers = [], nextTimer = 1, inflight = [], nextCycle = 0,
      requests = [], coinsOrder = None\<rparr>"

text \<open>The number of activations of \<^verbatim>\<open>fetchData\<close> that wait for their snapshot.\<close>

definition fetching :: "state \<Rightarrow> nat" where
  "fetching s = length (filter (\<lambda>kc. cycleData (snd kc) = None) (inflight s))"

text \<open>The timeframe a timeframe button selects.\<close>

definition selected_timeframe :: "event \<Rightarrow> timeframe" where
  "selected_timeframe ev = (if ev = ClickChart7 then TF7d else TF30d)"

section \<open>Sample inputs\<close>

text \<open>A snapshot entry with the given id and no 7-day series.\<close>

definition sample_coin :: "string \<Rightarrow> coin" where
  "sample_coin i =
     \<lparr>coin_id = i, coin_name = i, coin_symbol = i, coin_image = [],
      current_price = 1, market_cap = Some 1, market_cap_rank = None,
      total_volume = 1, price_change_percentage_24h = None, sparkline_in_7d = None\<rparr>"

text \<open>A provider on which every history request fails.\<close>

definition no_history :: network where
  "no_history = (\<lambda>i. TransportError)"

text \<open>Fifteen daily points of a rising price.\<close>

definition rising :: "(real \<times> real) list" where
  "rising = map (\<lambda>p. (0, p)) [1, 2, 3, 4, 5, 6, 7, 8, 9, 10, 11, 12, 13, 14, 15]"

text \<open>A provider that fails for the coin \<open>a\<close> and has fifteen points for every other coin.\<close>

definition sample_network :: network where
  "sample_network =
     (\<lambda>i. if i = ''a'' then TransportError else Response (JsonPrices rising))"

text \<open>The page after loading, before \<^verbatim>\<open>DOMContentLoaded\<close> is handled.\<close>

definition page_loaded :: state where
  "page_loaded = initial_state ''Loading...''"

text \<open>
  The page loads and starts the market-cap cycle 0; the user clicks the volume button
  before the snapshot of cycle 0 has arrived, which starts cycle 1; cycle 1 finishes
  first and cycle 0 after it.
\<close>

definition overlap_trace :: "event list" where
  "overlap_trace =
     [DOMContentLoaded, ClickVolume,
      SnapshotArrives 1 (Response [sample_coin ''v'']), HistoriesSettle 1 no_history [0],
      SnapshotArrives 0 (Response [sample_coin ''m'']), HistoriesSettle 0 no_history [0]]"

text \<open>One complete cycle with a snapshot of one coin.\<close>

definition first_cycle :: "event list" where
  "first_cycle =
     [DOMContentLoaded, SnapshotArrives 0 (Response [sample_coin ''a'']),
      HistoriesSettle 0 sample_network [0]]"

text \<open>A snapshot entry that has a 7-day series.\<close>

definition charted_coin :: coin where
  "charted_coin = (sample_coin ''b'')\<lparr>sparkline_in_7d := Some [7, 8]\<rparr>"

text \<open>
  One complete cycle with a snapshot of that coin, whose history has fifteen points:
  afterwards its row is in the table and its 7-day chart is drawn.
\<close>

definition shown_cycle :: "event list" where
  "shown_cycle =
     [DOMContentLoaded, SnapshotArrives 0 (Response [charted_coin]),
      HistoriesSettle 0 sample_network [0]]"

text \<open>
  The same, followed by the timer of the cycle: the next refresh has started, the table
  body is empty and the records of the first cycle are still held.
\<close>

definition refresh_started :: "event list" where
  "refresh_started = shown_cycle @ [TimerFires 1]"

section \<open>Properties of the indicator computations\<close>

lemma reduce_sum_eq: "reduce_sum xs = sum_list xs"
proof -
  have "foldl (\<lambda>acc val. acc + val) a xs = a + sum_list xs" for a :: real
    by (induction xs arbitrary: a) (simp_all add: add.assoc)
  from this [of 0] show ?thesis by (simp add: reduce_sum_def)
qed

lemma length_deltas: "length (deltas xs) = length xs - 1"
  by (simp add: deltas_def)

lemma nth_deltas:
  assumes "Suc i < length xs"
  shows "deltas xs ! i = xs ! Suc i - xs ! i"
proof -
  from assms have "i < length xs - 1" by arith
  then show ?thesis by (simp add: deltas_def)
qed

lemma rsi_step_delta:
  "rsi_step prices (g, l) (Suc k) =
     (g + gain_of (prices ! Suc k - prices ! k), l + loss_of (prices ! Suc k - prices ! k))"
  by (simp add: rsi_step_def gain_of_def loss_of_def Let_def)

lemma rsi_loop:
  "k < length prices \<Longrightarrow>
   foldl (rsi_step prices) (0, 0) [1..<Suc k] =
     (sum_list (map gain_of (take k (deltas prices))),
      sum_list (map loss_of (take k (deltas prices))))"
proof (induction k)
  case 0
  then show ?case by simp
next
  case (Suc k)
  then have k: "k < length prices" and sk: "Suc k < length prices" by simp_all
  have kd: "k < length (deltas prices)" using sk by (simp add: length_deltas)
  have upt: "[1..<Suc (Suc k)] = [1..<Suc k] @ [Suc k]" by simp
  have tk: "take (Suc k) (deltas prices) = take k (deltas prices) @ [prices ! Suc k - prices ! k]"
    using kd sk by (simp add: take_Suc_conv_app_nth nth_deltas)
  show ?case
    unfolding upt foldl_append Suc.IH [OF k] tk
    by (simp add: rsi_step_delta)
qed

lemma calculateRSI_formula:
  assumes "0 < period" "period < length prices"
  shows "calculateRSI prices period = JNum (rsi_formula (take period (deltas prices)) period)"
proof -
  note loop = rsi_loop [OF assms(2)]
  show ?thesis
    unfolding calculateRSI_def loop rsi_formula_def
    using assms by (simp add: Let_def)
qed

lemma deltas_take:
  assumes "p < length xs"
  shows "take p (deltas xs) = deltas (take (Suc p) xs)"
proof (rule nth_equalityI)
  show "length (take p (deltas xs)) = length (deltas (take (Suc p) xs))"
    unfolding length_take length_deltas using assms by arith
next
  fix i assume "i < length (take p (deltas xs))"
  then have i: "i < p" by simp
  then show "take p (deltas xs) ! i = deltas (take (Suc p) xs) ! i"
    using assms by (simp add: nth_deltas)
qed

lemma last_n_all: "length xs \<le> n \<Longrightarrow> last_n n xs = xs"
  by (simp add: last_n_def)

lemma calculateRSI_prefix:
  assumes "0 < period" "period < length prices"
  shows "calculateRSI prices period = rsi_spec (take (Suc period) prices) period"
proof -
  have "last_n period (deltas (take (Suc period) prices)) = deltas (take (Suc period) prices)"
    using assms by (intro last_n_all) (simp add: length_deltas)
  then show ?thesis
    using assms by (simp add: calculateRSI_formula deltas_take rsi_spec_def min_def)
qed

lemma sum_gain_nonneg: "0 \<le> sum_list (map gain_of ds)"
  by (induction ds) (simp_all add: gain_of_def)

lemma sum_loss_nonneg: "0 \<le> sum_list (map loss_of ds)"
  by (induction ds) (simp_all add: loss_of_def)

lemma rsi_formula_range:
  assumes "0 < period"
  shows "0 \<le> rsi_formula ds period \<and> rsi_formula ds period \<le> 100"
proof -
  define g where "g = sum_list (map gain_of ds) / real period"
  define l where "l = sum_list (map loss_of ds) / real period"
  have g: "0 \<le> g" and l: "0 \<le> l"
    using assms by (simp_all add: g_def l_def sum_gain_nonneg sum_loss_nonneg)
  show ?thesis
  proof (cases "l = 0")
    case True
    then show ?thesis by (simp add: rsi_formula_def l_def [symmetric] g_def [symmetric])
  next
    case False
    with l have "0 < l" by simp
    with g have rs: "0 \<le> g / l" by simp
    define q where "q = 100 / (1 + g / l)"
    have one: "1 \<le> 1 + g / l" using rs by simp
    have "q \<le> 100 / 1"
      unfolding q_def by (rule divide_left_mono) (use one in simp_all)
    moreover have "0 \<le> q" unfolding q_def using one by simp
    moreover have "rsi_formula ds period = 100 - q"
      using False by (simp add: rsi_formula_def g_def l_def q_def)
    ultimately show ?thesis by simp
  qed
qed

lemma rsi_formula_no_loss:
  assumes "\<forall>d \<in> set ds. 0 \<le> d"
  shows "rsi_formula ds period = 100"
proof -
  have "sum_list (map loss_of ds) = 0"
    using assms by (induction ds) (simp_all add: loss_of_def)
  then show ?thesis by (simp add: rsi_formula_def)
qed

lemma set_take_deltas:
  assumes "p < length xs" "d \<in> set (take p (deltas xs))"
  shows "\<exists>i<p. d = xs ! Suc i - xs ! i"
proof -
  from assms(2) obtain i where i: "i < length (take p (deltas xs))" and d: "d = take p (deltas xs) ! i"
    by (auto simp: in_set_conv_nth)
  from i have "i < p" by simp
  with assms(1) d show ?thesis by (auto simp: nth_deltas)
qed

lemma calculateRSI_no_loss:
  assumes "0 < period" "period < length prices"
    and "\<forall>i<period. prices ! i \<le> prices ! Suc i"
  shows "calculateRSI prices period = JNum 100"
proof -
  have "\<forall>d \<in> set (take period (deltas prices)). 0 \<le> d"
    using set_take_deltas [OF assms(2)] assms(3) by fastforce
  then show ?thesis
    using assms(1,2) by (simp add: calculateRSI_formula rsi_formula_no_loss)
qed

lemma deltas_drop: "deltas (drop k xs) = drop k (deltas xs)"
proof (rule nth_equalityI)
  show "length (deltas (drop k xs)) = length (drop k (deltas xs))"
    unfolding length_drop length_deltas by arith
next
  fix i assume "i < length (deltas (drop k xs))"
  then have i: "Suc (k + i) < length xs"
    unfolding length_drop length_deltas by arith
  then have "Suc i < length (drop k xs)" by simp
  then have "deltas (drop k xs) ! i = xs ! (k + Suc i) - xs ! (k + i)"
    using i by (simp add: nth_deltas)
  moreover have "drop k (deltas xs) ! i = xs ! Suc (k + i) - xs ! (k + i)"
    using i by (simp add: nth_deltas length_deltas)
  ultimately show "deltas (drop k xs) ! i = drop k (deltas xs) ! i" by simp
qed

lemma slice_from_neg:
  "0 < n \<Longrightarrow> slice_from (- int n) xs = last_n n xs"
  by (simp add: slice_from_def last_n_def Let_def max_def nat_diff_distrib' ) 

lemma length_last_n: "length (last_n n xs) = min n (length xs)"
  by (simp add: last_n_def)

lemma calculateRSI_trailing:
  "calculateRSI (slice_from (- 15) series) 14 = rsi_spec series 14"
proof (cases "length series < 15")
  case True
  then have "slice_from (- 15) series = series"
    using slice_from_neg [of 15 series] by (simp add: last_n_def)
  with True show ?thesis by (simp add: calculateRSI_def rsi_spec_def)
next
  case False
  define t where "t = last_n 15 series"
  have t: "slice_from (- 15) series = t"
    using slice_from_neg [of 15 series] by (simp add: t_def)
  have lt: "length t = 15" using False by (simp add: t_def length_last_n)
  have "take 14 (deltas t) = deltas t" by (simp add: length_deltas lt)
  moreover have "deltas t = last_n 14 (deltas series)"
    unfolding t_def last_n_def deltas_drop length_deltas
    using False by (intro arg_cong2 [where f = drop]) simp_all
  ultimately have "calculateRSI t 14 = JNum (rsi_formula (last_n 14 (deltas series)) 14)"
    using calculateRSI_formula [of 14 t] lt by simp
  with False t show ?thesis by (simp add: rsi_spec_def)
qed

text \<open>
  Claim C4, as the code has it. The loop of \<^verbatim>\<open>calculateRSI\<close> runs over the indices
  \<open>1..period\<close>, so for a positive period the function is absent below \<open>period + 1\<close>
  points and otherwise the specification's formula over the first \<open>period\<close> deltas of
  the series, that is, the specification's \<open>rsi\<close> of the first \<open>period + 1\<close> points.
  On a series of exactly \<open>period + 1\<close> points, which is what its documentation asks
  for, these are the last \<open>period\<close> deltas; and the one call of the script,
  \<^verbatim>\<open>calculateRSI(prices.slice(-15))\<close>, is the specification's \<open>rsi(prices, 14)\<close> for
  every series.
\<close>

theorem calculateRSI_leading_deltas:
  assumes "0 < period"
  shows "(length series < period + 1 \<longrightarrow> calculateRSI series period = JNull) \<and>
         (period + 1 \<le> length series \<longrightarrow>
            calculateRSI series period = rsi_spec (take (period + 1) series) period) \<and>
         (length series = period + 1 \<longrightarrow>
            calculateRSI series period = rsi_spec series period) \<and>
         calculateRSI (slice_from (- 15) series) 14 = rsi_spec series 14"
proof (intro conjI impI)
  assume "length series < period + 1"
  then show "calculateRSI series period = JNull" by (simp add: calculateRSI_def)
next
  assume "period + 1 \<le> length series"
  then show "calculateRSI series period = rsi_spec (take (period + 1) series) period"
    using calculateRSI_prefix [of period series] assms by simp
next
  assume "length series = period + 1"
  then show "calculateRSI series period = rsi_spec series period"
    using calculateRSI_prefix [of period series] assms by simp
next
  show "calculateRSI (slice_from (- 15) series) 14 = rsi_spec series 14"
    by (rule calculateRSI_trailing)
qed

text \<open>The theorem at the three points 44, 45, 43 with period 2.\<close>

theorem calculateRSI_leading_deltas_witness:
  "0 < (2::nat) \<and> length [44, 45, 43 :: real] = 2 + 1 \<and>
   calculateRSI [44, 45, 43] 2 = rsi_spec [44, 45, 43] 2"
  using calculateRSI_leading_deltas [of 2 "[44, 45, 43]"] by simp

text \<open>
  C4 as stated fails on a series longer than \<open>period + 1\<close>: on 1, 2, 1 with period 1
  the code reads the first delta (a gain, result 100), the last delta is a loss
  (result 0).
\<close>

theorem calculateRSI_last_deltas_counterexample:
  "calculateRSI [1, 2, 1] 1 = JNum 100 \<and> rsi_spec [1, 2, 1] 1 = JNum 0 \<and>
   calculateRSI [1, 2, 1] 1 \<noteq> rsi_spec [1, 2, 1] 1"
  by code_simp

text \<open>
  Claim C5, as the code has it. For every series of at least 15 points
  \<^verbatim>\<open>calculateRSI(series, 14)\<close> is a number in the closed interval from 0 to 100; it is
  exactly 100 whenever the first 14 deltas are non-negative; and when the 14 trailing
  deltas of the series are non-negative, the call of the script on the last 15 points,
  \<^verbatim>\<open>calculateRSI(series.slice(-15), 14)\<close>, is exactly 100.
\<close>

theorem calculateRSI_range:
  assumes "15 \<le> length series"
  shows "(\<exists>r. calculateRSI series 14 = JNum r \<and> 0 \<le> r \<and> r \<le> 100) \<and>
         ((\<forall>i<14. series ! i \<le> series ! Suc i) \<longrightarrow> calculateRSI series 14 = JNum 100) \<and>
         ((\<forall>d \<in> set (last_n 14 (deltas series)). 0 \<le> d) \<longrightarrow>
            calculateRSI (slice_from (- 15) series) 14 = JNum 100)"
proof (intro conjI impI)
  have "calculateRSI series 14 = JNum (rsi_formula (take 14 (deltas series)) 14)"
    using assms by (intro calculateRSI_formula) simp_all
  then show "\<exists>r. calculateRSI series 14 = JNum r \<and> 0 \<le> r \<and> r \<le> 100"
    using rsi_formula_range [of 14 "take 14 (deltas series)"] by simp
next
  assume "\<forall>i<14. series ! i \<le> series ! Suc i"
  then show "calculateRSI series 14 = JNum 100"
    using assms by (intro calculateRSI_no_loss) simp_all
next
  assume "\<forall>d \<in> set (last_n 14 (deltas series)). 0 \<le> d"
  then show "calculateRSI (slice_from (- 15) series) 14 = JNum 100"
    using assms by (simp add: calculateRSI_trailing rsi_spec_def rsi_formula_no_loss)
qed

text \<open>The theorem at a series of 15 points.\<close>

theorem calculateRSI_range_witness:
  "15 \<le> length [1, 2, 3, 4, 5, 6, 7, 8, 9, 10, 11, 12, 13, 14, 13 :: real] \<and>
   (\<exists>r. calculateRSI [1, 2, 3, 4, 5, 6, 7, 8, 9, 10, 11, 12, 13, 14, 13] 14 = JNum r
      \<and> 0 \<le> r \<and> r \<le> 100)"
proof -
  have h: "15 \<le> length [1, 2, 3, 4, 5, 6, 7, 8, 9, 10, 11, 12, 13, 14, 13 :: real]"
    by simp
  from calculateRSI_range [OF h] h show ?thesis by blast
qed

text \<open>
  C5 as stated fails on a series longer than 15 points: on 16 points that fall once and
  are constant afterwards, the 14 trailing deltas are all zero, and the code, which
  reads the first 14 deltas, returns 0.
\<close>

theorem calculateRSI_trailing_counterexample:
  "length [2, 1, 1, 1, 1, 1, 1, 1, 1, 1, 1, 1, 1, 1, 1, 1 :: real] = 16 \<and>
   last_n 14 (deltas [2, 1, 1, 1, 1, 1, 1, 1, 1, 1, 1, 1, 1, 1, 1, 1]) = replicate 14 0 \<and>
   calculateRSI [2, 1, 1, 1, 1, 1, 1, 1, 1, 1, 1, 1, 1, 1, 1, 1] 14 = JNum 0"
  by code_simp

text \<open>
  Claim C10. A delta of exactly zero takes the \<^verbatim>\<open>change >= 0\<close> branch, so it never
  adds to the losses: for a positive period and a series of at least \<open>period + 1\<close>
  points whose computed deltas (the first \<open>period\<close> ones) are all zero, the result is
  exactly 100, not absent and not 50.
\<close>

theorem calculateRSI_constant:
  assumes "0 < period" and "period + 1 \<le> length series"
    and "\<forall>i<period. series ! Suc i = series ! i"
  shows "calculateRSI series period = JNum 100 \<and>
         calculateRSI series period \<noteq> JNull \<and>
         calculateRSI series period \<noteq> JNum 50"
proof -
  have "calculateRSI series period = JNum 100"
    using assms by (intro calculateRSI_no_loss) simp_all
  then show ?thesis by simp
qed

text \<open>The theorem at the constant series 5, 5, 5 with period 2.\<close>

theorem calculateRSI_constant_witness:
  "0 < (2::nat) \<and> 2 + 1 \<le> length [5, 5, 5 :: real] \<and>
   [5, 5, 5 :: real] ! 1 = [5, 5, 5] ! 0 \<and> [5, 5, 5 :: real] ! 2 = [5, 5, 5] ! 1 \<and>
   calculateRSI [5, 5, 5] 2 = JNum 100"
proof -
  have h: "\<forall>i<2. [5, 5, 5 :: real] ! Suc i = [5, 5, 5] ! i"
    by (simp add: numeral_2_eq_2 less_Suc_eq)
  from calculateRSI_constant [of 2 "[5, 5, 5]", OF _ _ h] h show ?thesis by simp
qed

lemma movingAverage_mean:
  assumes "0 < window" "series \<noteq> []"
  shows "movingAverage series window =
           JNum (sum_list (last_n window series) / real (min window (length series)))"
proof -
  have "0 < length series" using assms(2) by simp
  with assms(1) have "length series - window < length series" by arith
  then have "last_n window series \<noteq> []"
    by (simp add: last_n_def)
  then show ?thesis
    using assms(1)
    by (simp add: movingAverage_def slice_from_neg reduce_sum_eq length_last_n Let_def)
qed

text \<open>
  Claim C7. For a positive window and a non-empty series the moving average is the
  arithmetic mean of the last \<open>window\<close> points, and of all points when the series has
  fewer; on 10, 20, 30 with window 50 it is 20. The two averages of
  \<^verbatim>\<open>fetchMarketChart\<close> are this function at 50 and 200, and absent for the empty
  series.
\<close>

theorem movingAverage_trailing_mean:
  "(0 < window \<and> series \<noteq> [] \<and> window \<le> length series \<longrightarrow>
      movingAverage series window =
        JNum (sum_list (drop (length series - window) series) / real window)) \<and>
   (0 < window \<and> series \<noteq> [] \<and> length series < window \<longrightarrow>
      movingAverage series window = JNum (sum_list series / real (length series))) \<and>
   movingAverage [10, 20, 30] 50 = JNum 20 \<and>
   avg50 (chartIndicators (JsonPrices ps)) =
     (if ps = [] then JNull else movingAverage (map snd ps) 50) \<and>
   avg200 (chartIndicators (JsonPrices ps)) =
     (if ps = [] then JNull else movingAverage (map snd ps) 200)"
proof (intro conjI impI)
  assume "0 < window \<and> series \<noteq> [] \<and> window \<le> length series"
  then show "movingAverage series window =
        JNum (sum_list (drop (length series - window) series) / real window)"
    by (simp add: movingAverage_mean last_n_def min_def)
next
  assume "0 < window \<and> series \<noteq> [] \<and> length series < window"
  then show "movingAverage series window = JNum (sum_list series / real (length series))"
    by (simp add: movingAverage_mean last_n_def min_def)
next
  have "movingAverage [10, 20, 30] 50 = JNum (sum_list (last_n 50 [10, 20, 30]) / real (min 50 (length [10, 20, 30 :: real])))"
    by (rule movingAverage_mean) simp_all
  then show "movingAverage [10, 20, 30] 50 = JNum 20"
    by (simp add: last_n_def)
next
  show "avg50 (chartIndicators (JsonPrices ps)) =
     (if ps = [] then JNull else movingAverage (map snd ps) 50)"
    by (simp add: chartIndicators_def absent_indicators_def Let_def)
next
  show "avg200 (chartIndicators (JsonPrices ps)) =
     (if ps = [] then JNull else movingAverage (map snd ps) 200)"
    by (simp add: chartIndicators_def absent_indicators_def Let_def)
qed

text \<open>The theorem at the series 1, 2, 6 with window 2.\<close>

theorem movingAverage_trailing_mean_witness:
  "0 < (2::nat) \<and> [1, 2, 6 :: real] \<noteq> [] \<and> 2 \<le> length [1, 2, 6 :: real] \<and>
   movingAverage [1, 2, 6] 2 = JNum 4"
  using movingAverage_trailing_mean [of 2 "[1, 2, 6]"] by simp

text \<open>
  Claim C8. The ratio is \<open>volume / marketCap\<close> when the market cap is greater than
  zero and absent otherwise (also for a \<^verbatim>\<open>null\<close> market cap); it is absent at
  (500, 0) and one half at (500, 1000).
\<close>

theorem volumeToMarketCapRatio_cases:
  "volumeToMarketCapRatio v (Some mc) = (if mc > 0 then JNum (v / mc) else JNull) \<and>
   volumeToMarketCapRatio v None = JNull \<and>
   volumeToMarketCapRatio 500 (Some 0) = JNull \<and>
   volumeToMarketCapRatio 500 (Some 1000) = JNum (1 / 2)"
  by (simp add: volumeToMarketCapRatio_def)

text \<open>The theorem at (300, 1200).\<close>

theorem volumeToMarketCapRatio_cases_witness:
  "volumeToMarketCapRatio 300 (Some 1200) = JNum (1 / 4)"
  using volumeToMarketCapRatio_cases [of 300 1200] by simp

lemma scale_loop_small: "x < 1000 \<Longrightarrow> scale_loop x 0 = (x, 0)"
  by (simp add: scale_loop.simps)

text \<open>
  Claim C6, as the code has it. \<^verbatim>\<open>formatLargeNumber\<close> maps 12,345,678 to
  \<^verbatim>\<open>$12.35M\<close> and 999 to \<^verbatim>\<open>$999\<close>: below 1000 the value is neither scaled nor
  given a unit, and it is printed with two decimals below 100 and with none from 100
  on.
\<close>

theorem formatLargeNumber_examples:
  "formatLargeNumber (Some 12345678) = Some ''$12.35M'' \<and>
   formatLargeNumber (Some 999) = Some ''$999'' \<and>
   (x < 1000 \<longrightarrow>
      formatLargeNumber (Some x) =
        map_option (\<lambda>t. ''$'' @ t) (toFixed x (if x < 100 then 2 else 0)))"
proof (intro conjI impI)
  show "formatLargeNumber (Some 12345678) = Some ''$12.35M''" by code_simp
next
  show "formatLargeNumber (Some 999) = Some ''$999''" by code_simp
next
  assume "x < 1000"
  then show "formatLargeNumber (Some x) =
        map_option (\<lambda>t. ''$'' @ t) (toFixed x (if x < 100 then 2 else 0))"
    by (simp add: formatLargeNumber_def scale_loop_small units_def split: option.splits)
qed

text \<open>The theorem at 5.\<close>

theorem formatLargeNumber_examples_witness:
  "(5 :: real) < 1000 \<and> formatLargeNumber (Some 5) = Some ''$5.00''"
proof -
  have "toFixed 5 2 = Some ''5.00''" by code_simp
  then show ?thesis using formatLargeNumber_examples [of 5] by simp
qed

text \<open>C6 as stated fails at 999: the code prints no decimals from 100 on.\<close>

theorem formatLargeNumber_999_counterexample:
  "formatLargeNumber (Some 999) \<noteq> Some ''$999.00''"
  by code_simp

section \<open>Properties of the enrichment\<close>

lemma fill_slot_map:
  "fill_slot r (map (\<lambda>i. if i \<in> S then Some (r ! i) else None) [0..<length r]) c =
     map (\<lambda>i. if i \<in> insert c S then Some (r ! i) else None) [0..<length r]"
proof (cases "c < length r")
  case True
  then show ?thesis
    by (auto simp: fill_slot_def intro!: nth_equalityI simp: nth_list_update)
next
  case False
  then show ?thesis by (auto simp: fill_slot_def)
qed

lemma foldl_fill_slot:
  "foldl (fill_slot r) (map (\<lambda>i. if i \<in> S then Some (r ! i) else None) [0..<length r]) cs =
     map (\<lambda>i. if i \<in> S \<union> set cs then Some (r ! i) else None) [0..<length r]"
proof (induction cs arbitrary: S)
  case Nil
  then show ?case by simp
next
  case (Cons c cs)
  show ?case
    unfolding foldl.simps fill_slot_map Cons.IH by simp
qed

lemma those_map_Some: "those (map Some xs) = Some xs"
  by (induction xs) simp_all

lemma promiseAll_settled:
  assumes "{..<length r} \<subseteq> set cs"
  shows "promiseAll r cs = Some r"
proof -
  have start: "replicate (length r) None =
      map (\<lambda>i. if i \<in> {} then Some (r ! i) else None) [0..<length r]"
    by (simp add: map_replicate_const)
  have "map (\<lambda>i. if i \<in> {} \<union> set cs then Some (r ! i) else None) [0..<length r] =
        map (\<lambda>i. Some (r ! i)) [0..<length r]"
    using assms by (intro map_cong) auto
  also have "\<dots> = map Some (map (nth r) [0..<length r])" by simp
  also have "\<dots> = map Some r" by (simp only: map_nth)
  finally show ?thesis
    unfolding promiseAll_def start foldl_fill_slot by (simp add: those_map_Some)
qed

lemma enrich_settled:
  "{..<length data} \<subseteq> set completion \<Longrightarrow>
   enrich net data completion = Some (map (enrichCoin net) data)"
  by (simp add: enrich_def promiseAll_settled)

lemma base_enrichCoin: "base (enrichCoin net c) = c"
  by (simp add: enrichCoin_def assign_def split: sum.splits)

lemma enrichCoin_failed:
  "net (coin_id c) = TransportError \<Longrightarrow> all_absent (enrichCoin net c)"
  by (simp add: enrichCoin_def fetchMarketChart_def assign_def all_absent_def)

lemma enrichCoin_no_data:
  "net (coin_id c) = Response j \<Longrightarrow> j = JsonNull \<or> j = JsonNoPrices \<or> j = JsonPrices [] \<Longrightarrow>
   all_absent (enrichCoin net c)"
  by (auto simp: enrichCoin_def fetchMarketChart_def assign_def all_absent_def
      chartIndicators_def absent_indicators_def)

lemma is_number_movingAverage:
  "0 < w \<Longrightarrow> xs \<noteq> [] \<Longrightarrow> is_number (movingAverage xs w)"
  by (simp add: movingAverage_mean is_number_def)

lemma slice_nonempty: "0 < n \<Longrightarrow> xs \<noteq> [] \<Longrightarrow> slice_from (- int n) xs \<noteq> []"
proof -
  assume n: "0 < n" and xs: "xs \<noteq> []"
  then have "0 < length xs" by simp
  with n have "length xs - n < length xs" by arith
  then show ?thesis using n by (simp add: slice_from_neg last_n_def)
qed

lemma enrichCoin_long:
  assumes "net (coin_id c) = Response (JsonPrices ps)" "15 \<le> length ps"
  shows "fully_populated (enrichCoin net c)"
proof -
  let ?p = "map snd ps"
  have ne: "?p \<noteq> []" using assms(2) by auto
  have ps: "ps \<noteq> []" using assms(2) by auto
  have "calculateRSI (slice_from (- 15) ?p) 14 = rsi_spec ?p 14"
    by (rule calculateRSI_trailing)
  then have r: "is_number (calculateRSI (slice_from (- 15) ?p) 14)"
    using assms(2) by (simp add: rsi_spec_def is_number_def)
  have s: "slice_from (- 30) ?p \<noteq> []"
    using slice_nonempty [of 30 ?p] ne by simp
  show ?thesis
    using assms(1) ps r s is_number_movingAverage [of 50 ?p] is_number_movingAverage [of 200 ?p] ne
    by (simp add: enrichCoin_def fetchMarketChart_def assign_def fully_populated_def
        chartIndicators_def Let_def)
qed

lemma enrichCoin_short:
  assumes "net (coin_id c) = Response (JsonPrices ps)" "0 < length ps" "length ps < 15"
  shows "is_number (avg50 (enrichCoin net c)) \<and> is_number (avg200 (enrichCoin net c)) \<and>
         prices30 (enrichCoin net c) \<noteq> [] \<and> rsi14 (enrichCoin net c) = JNull"
proof -
  let ?p = "map snd ps"
  have ne: "?p \<noteq> []" using assms(2) by auto
  have ps: "ps \<noteq> []" using assms(2) by auto
  have "calculateRSI (slice_from (- 15) ?p) 14 = rsi_spec ?p 14"
    by (rule calculateRSI_trailing)
  then have r: "calculateRSI (slice_from (- 15) ?p) 14 = JNull"
    using assms(3) by (simp add: rsi_spec_def)
  have s: "slice_from (- 30) ?p \<noteq> []"
    using slice_nonempty [of 30 ?p] ne by simp
  show ?thesis
    using assms(1) ps r s is_number_movingAverage [of 50 ?p] is_number_movingAverage [of 200 ?p] ne
    by (simp add: enrichCoin_def fetchMarketChart_def assign_def
        chartIndicators_def Let_def)
qed

text \<open>
  Claim C3, as the code has it. Whatever the order in which the history requests
  settle, \<^verbatim>\<open>Promise.all\<close> yields exactly one record per snapshot entry, in the
  order of the snapshot, each carrying its entry unchanged. A failed request gives a
  record with all four indicator fields absent; a history of at least 15 points gives
  a fully populated record; a history of 1 to 14 points gives both averages and the
  30-day series but an absent RSI; a response that is \<^verbatim>\<open>null\<close> or has no price
  points gives all four fields absent.
\<close>

theorem enrich_partial_failure:
  assumes "set completion = {..<length data}"
  shows "\<exists>recs. enrich net data completion = Some recs \<and>
           length recs = length data \<and> map base recs = data \<and>
           (\<forall>i<length data.
              (net (coin_id (data ! i)) = TransportError \<longrightarrow> all_absent (recs ! i)) \<and>
              (\<forall>ps. net (coin_id (data ! i)) = Response (JsonPrices ps) \<and> 15 \<le> length ps
                 \<longrightarrow> fully_populated (recs ! i)) \<and>
              (\<forall>ps. net (coin_id (data ! i)) = Response (JsonPrices ps) \<and>
                    0 < length ps \<and> length ps < 15
                 \<longrightarrow> is_number (avg50 (recs ! i)) \<and> is_number (avg200 (recs ! i)) \<and>
                     prices30 (recs ! i) \<noteq> [] \<and> rsi14 (recs ! i) = JNull) \<and>
              (net (coin_id (data ! i)) = Response JsonNull \<or>
               net (coin_id (data ! i)) = Response JsonNoPrices \<or>
               net (coin_id (data ! i)) = Response (JsonPrices [])
                 \<longrightarrow> all_absent (recs ! i)))"
proof -
  let ?recs = "map (enrichCoin net) data"
  have e: "enrich net data completion = Some ?recs"
    using assms by (intro enrich_settled) simp
  have b: "map base ?recs = data"
    by (simp add: base_enrichCoin comp_def)
  have "\<forall>i<length data.
              (net (coin_id (data ! i)) = TransportError \<longrightarrow> all_absent (?recs ! i)) \<and>
              (\<forall>ps. net (coin_id (data ! i)) = Response (JsonPrices ps) \<and> 15 \<le> length ps
                 \<longrightarrow> fully_populated (?recs ! i)) \<and>
              (\<forall>ps. net (coin_id (data ! i)) = Response (JsonPrices ps) \<and>
                    0 < length ps \<and> length ps < 15
                 \<longrightarrow> is_number (avg50 (?recs ! i)) \<and> is_number (avg200 (?recs ! i)) \<and>
                     prices30 (?recs ! i) \<noteq> [] \<and> rsi14 (?recs ! i) = JNull) \<and>
              (net (coin_id (data ! i)) = Response JsonNull \<or>
               net (coin_id (data ! i)) = Response JsonNoPrices \<or>
               net (coin_id (data ! i)) = Response (JsonPrices [])
                 \<longrightarrow> all_absent (?recs ! i))"
  proof (intro allI impI)
    fix i assume i: "i < length data"
    then have n: "?recs ! i = enrichCoin net (data ! i)" by simp
    show "(net (coin_id (data ! i)) = TransportError \<longrightarrow> all_absent (?recs ! i)) \<and>
              (\<forall>ps. net (coin_id (data ! i)) = Response (JsonPrices ps) \<and> 15 \<le> length ps
                 \<longrightarrow> fully_populated (?recs ! i)) \<and>
              (\<forall>ps. net (coin_id (data ! i)) = Response (JsonPrices ps) \<and>
                    0 < length ps \<and> length ps < 15
                 \<longrightarrow> is_number (avg50 (?recs ! i)) \<and> is_number (avg200 (?recs ! i)) \<and>
                     prices30 (?recs ! i) \<noteq> [] \<and> rsi14 (?recs ! i) = JNull) \<and>
              (net (coin_id (data ! i)) = Response JsonNull \<or>
               net (coin_id (data ! i)) = Response JsonNoPrices \<or>
               net (coin_id (data ! i)) = Response (JsonPrices [])
                 \<longrightarrow> all_absent (?recs ! i))"
      unfolding n
      using enrichCoin_failed [of net "data ! i"] enrichCoin_long [of net "data ! i"]
        enrichCoin_short [of net "data ! i"] enrichCoin_no_data [of net "data ! i"]
      by blast
  qed
  with e b show ?thesis by (intro exI [of _ ?recs]) simp
qed

text \<open>
  The theorem at a snapshot of two coins, the first of which fails, with the second
  request settling first.
\<close>

theorem enrich_partial_failure_witness:
  "set [1, 0] = {..<length [sample_coin ''a'', sample_coin ''b'']} \<and>
   (\<exists>recs. enrich sample_network [sample_coin ''a'', sample_coin ''b''] [1, 0] = Some recs \<and>
      map base recs = [sample_coin ''a'', sample_coin ''b''] \<and>
      all_absent (recs ! 0) \<and> fully_populated (recs ! 1))"
proof -
  let ?data = "[sample_coin ''a'', sample_coin ''b'']"
  have h: "set [1, 0] = {..<length ?data}" by auto
  have a: "sample_network (coin_id (?data ! 0)) = TransportError"
    by (simp add: sample_network_def sample_coin_def)
  have b: "sample_network (coin_id (?data ! 1)) = Response (JsonPrices rising) \<and>
           15 \<le> length rising"
    by (simp add: sample_network_def sample_coin_def rising_def)
  from enrich_partial_failure [OF h, of sample_network] obtain recs where
    r: "enrich sample_network ?data [1, 0] = Some recs" "map base recs = ?data"
    and r0: "sample_network (coin_id (?data ! 0)) = TransportError \<longrightarrow> all_absent (recs ! 0)"
    and r1: "\<forall>ps. sample_network (coin_id (?data ! 1)) = Response (JsonPrices ps) \<and> 15 \<le> length ps
                 \<longrightarrow> fully_populated (recs ! 1)"
  proof (elim exE conjE)
    fix recs
    assume 1: "enrich sample_network ?data [1, 0] = Some recs"
      and 2: "map base recs = ?data"
      and 3: "\<forall>i<length ?data.
              (sample_network (coin_id (?data ! i)) = TransportError \<longrightarrow> all_absent (recs ! i)) \<and>
              (\<forall>ps. sample_network (coin_id (?data ! i)) = Response (JsonPrices ps) \<and> 15 \<le> length ps
                 \<longrightarrow> fully_populated (recs ! i)) \<and>
              (\<forall>ps. sample_network (coin_id (?data ! i)) = Response (JsonPrices ps) \<and>
                    0 < length ps \<and> length ps < 15
                 \<longrightarrow> is_number (avg50 (recs ! i)) \<and> is_number (avg200 (recs ! i)) \<and>
                     prices30 (recs ! i) \<noteq> [] \<and> rsi14 (recs ! i) = JNull) \<and>
              (sample_network (coin_id (?data ! i)) = Response JsonNull \<or>
               sample_network (coin_id (?data ! i)) = Response JsonNoPrices \<or>
               sample_network (coin_id (?data ! i)) = Response (JsonPrices [])
                 \<longrightarrow> all_absent (recs ! i))"
    have l0: "0 < length ?data" and l1: "1 < length ?data" by simp_all
    from 3 [rule_format, OF l0] have x0:
      "sample_network (coin_id (?data ! 0)) = TransportError \<longrightarrow> all_absent (recs ! 0)"
      by (rule conjunct1)
    from 3 [rule_format, OF l1] have x1:
      "\<forall>ps. sample_network (coin_id (?data ! 1)) = Response (JsonPrices ps) \<and> 15 \<le> length ps
                 \<longrightarrow> fully_populated (recs ! 1)"
      by (elim conjE) assumption
    show thesis by (rule that [OF 1 2 x0 x1])
  qed
  from r0 a have a': "all_absent (recs ! 0)" by (rule mp)
  from r1 b have b': "fully_populated (recs ! 1)" by (elim allE [of _ rising]) (rule mp)
  show ?thesis
    by (intro conjI exI [of _ recs]) (rule h r a' b')+
qed

text \<open>
  C3 as stated fails for a request that succeeds with fewer than 15 points: with three
  points the record has no RSI.
\<close>

theorem enrich_short_history_counterexample:
  "enrich (\<lambda>i. Response (JsonPrices [(0, 1), (1, 2), (2, 3)])) [sample_coin ''a''] [0] =
     Some [assign (sample_coin ''a'')
             \<lparr>avg50 = JNum 2, avg200 = JNum 2, prices30 = [1, 2, 3], rsi14 = JNull\<rparr>] \<and>
   \<not> fully_populated (assign (sample_coin ''a'')
             \<lparr>avg50 = JNum 2, avg200 = JNum 2, prices30 = [1, 2, 3], rsi14 = JNull\<rparr>)"
  by code_simp

section \<open>Properties of the refresh cycle\<close>

lemma draw_from_all:
  "\<forall>i<length cs. k + i \<in> set canvases \<Longrightarrow>
   draw_from tf canvases k cs ci =
     ((\<lambda>j. if k \<le> j \<and> j < k + length cs then Some (drawChart tf (cs ! (j - k))) else ci j),
      True)"
proof (induction cs arbitrary: k ci)
  case Nil
  then show ?case by (auto simp: fun_eq_iff)
next
  case (Cons c cs)
  from Cons.prems have k: "k \<in> set canvases" by force
  have rest: "\<forall>i<length cs. Suc k + i \<in> set canvases"
  proof (intro allI impI)
    fix i assume "i < length cs"
    then have "Suc i < length (c # cs)" by simp
    with Cons.prems have "k + Suc i \<in> set canvases" by blast
    then show "Suc k + i \<in> set canvases" by simp
  qed
  show ?case
    unfolding draw_from.simps using k
    by (auto simp: Cons.IH [OF rest] fun_eq_iff nth_Cons' Suc_diff_le)
qed

lemma clickChart7_same: "chartTimeframe s = TF7d \<Longrightarrow> clickChart7 s = s"
  by (simp add: clickChart7_def)

lemma clickChart30_same: "chartTimeframe s = TF30d \<Longrightarrow> clickChart30 s = s"
  by (simp add: clickChart30_def)

lemma clickChart7_charts:
  assumes "\<forall>i<length (coinsData s). i \<in> set (tableCanvases s)" "chartTimeframe s \<noteq> TF7d"
    "i < length (coinsData s)"
  shows "chartInstances (clickChart7 s) i = Some (drawChart TF7d (coinsData s ! i))"
proof -
  have "\<forall>i<length (coinsData s). 0 + i \<in> set (tableCanvases s)" using assms(1) by simp
  from draw_from_all [OF this] assms(2,3) show ?thesis
    by (simp add: clickChart7_def updateAllCharts_def Let_def)
qed

lemma clickChart30_charts:
  assumes "\<forall>i<length (coinsData s). i \<in> set (tableCanvases s)" "chartTimeframe s \<noteq> TF30d"
    "i < length (coinsData s)"
  shows "chartInstances (clickChart30 s) i = Some (drawChart TF30d (coinsData s ! i))"
proof -
  have "\<forall>i<length (coinsData s). 0 + i \<in> set (tableCanvases s)" using assms(1) by simp
  from draw_from_all [OF this] assms(2,3) show ?thesis
    by (simp add: clickChart30_def updateAllCharts_def Let_def)
qed

lemma draw_from_outside:
  "j < k \<or> k + length cs \<le> j \<Longrightarrow> fst (draw_from tf canvases k cs ci) j = ci j"
proof (induction cs arbitrary: k ci)
  case Nil
  then show ?case by simp
next
  case (Cons c cs)
  from Cons.prems have jk: "j \<noteq> k" by auto
  from Cons.prems have "j < Suc k \<or> Suc k + length cs \<le> j" by auto
  from Cons.IH [OF this] jk show ?case by simp
qed

lemma drawChart_retained:
  "drawChart tf r =
     (if tf = TF30d \<and> prices30 r \<noteq> []
      then \<lparr>chartData = prices30 r,
            borderColor = (if hd (prices30 r) \<le> last (prices30 r) then green else red)\<rparr>
      else \<lparr>chartData = (case sparkline_in_7d (base r) of Some p \<Rightarrow> p | None \<Rightarrow> []),
            borderColor = (case price_change_percentage_24h (base r) of
                             None \<Rightarrow> green
                           | Some p \<Rightarrow> if 0 \<le> p then green else red)\<rparr>)"
  by (simp add: drawChart_def Let_def hd_conv_nth last_conv_nth)

lemma clickChart7_frame:
  "requests (clickChart7 s) = requests s \<and> inflight (clickChart7 s) = inflight s \<and>
   coinsData (clickChart7 s) = coinsData s \<and> coinsOrder (clickChart7 s) = coinsOrder s \<and>
   currentOrder (clickChart7 s) = currentOrder s \<and>
   refreshTimer (clickChart7 s) = refreshTimer s \<and> liveTimers (clickChart7 s) = liveTimers s \<and>
   nextTimer (clickChart7 s) = nextTimer s \<and> nextCycle (clickChart7 s) = nextCycle s \<and>
   tableCanvases (clickChart7 s) = tableCanvases s \<and>
   loadingVisible (clickChart7 s) = loadingVisible s \<and>
   loadingText (clickChart7 s) = loadingText s \<and>
   contentHidden (clickChart7 s) = contentHidden s \<and>
   marketActive (clickChart7 s) = marketActive s \<and>
   volumeActive (clickChart7 s) = volumeActive s \<and>
   chartTimeframe (clickChart7 s) = TF7d"
  by (simp add: clickChart7_def Let_def)

lemma clickChart30_frame:
  "requests (clickChart30 s) = requests s \<and> inflight (clickChart30 s) = inflight s \<and>
   coinsData (clickChart30 s) = coinsData s \<and> coinsOrder (clickChart30 s) = coinsOrder s \<and>
   currentOrder (clickChart30 s) = currentOrder s \<and>
   refreshTimer (clickChart30 s) = refreshTimer s \<and> liveTimers (clickChart30 s) = liveTimers s \<and>
   nextTimer (clickChart30 s) = nextTimer s \<and> nextCycle (clickChart30 s) = nextCycle s \<and>
   tableCanvases (clickChart30 s) = tableCanvases s \<and>
   loadingVisible (clickChart30 s) = loadingVisible s \<and>
   loadingText (clickChart30 s) = loadingText s \<and>
   contentHidden (clickChart30 s) = contentHidden s \<and>
   marketActive (clickChart30 s) = marketActive s \<and>
   volumeActive (clickChart30 s) = volumeActive s \<and>
   chartTimeframe (clickChart30 s) = TF30d"
  by (simp add: clickChart30_def Let_def)

lemma clickChart7_outside:
  "length (coinsData s) \<le> i \<Longrightarrow> chartInstances (clickChart7 s) i = chartInstances s i"
  by (simp add: clickChart7_def Let_def updateAllCharts_def draw_from_outside)

lemma clickChart30_outside:
  "length (coinsData s) \<le> i \<Longrightarrow> chartInstances (clickChart30 s) i = chartInstances s i"
  by (simp add: clickChart30_def Let_def updateAllCharts_def draw_from_outside)

text \<open>
  Claim C9, as the code has it. A click on a timeframe button sends no request and
  starts no cycle, and leaves the record set, the sort order, the timers and the rest
  of the page as they are: it changes the timeframe (with the buttons' active class)
  and no chart beyond those of the held records. When the canvas of every held record
  is in the table, the chart of each record is redrawn from the series the record
  holds: from its 30-day series when the 30-day button was clicked and that series is
  not empty, coloured by the series' trend, and from its 7-day series otherwise,
  coloured by the 24-hour change. A click on the button of the current timeframe
  changes nothing at all.
\<close>

theorem timeframe_switch:
  assumes "ev = ClickChart7 \<or> ev = ClickChart30"
  shows "requests (step s ev) = requests s \<and> inflight (step s ev) = inflight s \<and>
         coinsData (step s ev) = coinsData s \<and> coinsOrder (step s ev) = coinsOrder s \<and>
         currentOrder (step s ev) = currentOrder s \<and>
         refreshTimer (step s ev) = refreshTimer s \<and> liveTimers (step s ev) = liveTimers s \<and>
         nextTimer (step s ev) = nextTimer s \<and> nextCycle (step s ev) = nextCycle s \<and>
         tableCanvases (step s ev) = tableCanvases s \<and>
         loadingVisible (step s ev) = loadingVisible s \<and>
         loadingText (step s ev) = loadingText s \<and>
         contentHidden (step s ev) = contentHidden s \<and>
         marketActive (step s ev) = marketActive s \<and>
         volumeActive (step s ev) = volumeActive s \<and>
         chartTimeframe (step s ev) = selected_timeframe ev \<and>
         (chartTimeframe s = selected_timeframe ev \<longrightarrow> step s ev = s) \<and>
         (\<forall>i. length (coinsData s) \<le> i \<longrightarrow>
            chartInstances (step s ev) i = chartInstances s i) \<and>
         (chartTimeframe s \<noteq> selected_timeframe ev \<and>
          (\<forall>i<length (coinsData s). i \<in> set (tableCanvases s)) \<longrightarrow>
            (\<forall>i<length (coinsData s).
               chartInstances (step s ev) i = Some
                 (if ev = ClickChart30 \<and> prices30 (coinsData s ! i) \<noteq> []
                  then \<lparr>chartData = prices30 (coinsData s ! i),
                        borderColor =
                          (if hd (prices30 (coinsData s ! i)) \<le> last (prices30 (coinsData s ! i))
                           then green else red)\<rparr>
                  else \<lparr>chartData =
                          (case sparkline_in_7d (base (coinsData s ! i)) of
                             Some p \<Rightarrow> p | None \<Rightarrow> []),
                        borderColor =
                          (case price_change_percentage_24h (base (coinsData s ! i)) of
                             None \<Rightarrow> green
                           | Some p \<Rightarrow> if 0 \<le> p then green else red)\<rparr>)))"
  using assms
proof
  assume ev: "ev = ClickChart7"
  have charts: "chartTimeframe s \<noteq> TF7d \<and>
          (\<forall>i<length (coinsData s). i \<in> set (tableCanvases s)) \<longrightarrow>
            (\<forall>i<length (coinsData s).
               chartInstances (clickChart7 s) i = Some (drawChart TF7d (coinsData s ! i)))"
    using clickChart7_charts [of s] by blast
  have outside: "\<forall>i. length (coinsData s) \<le> i \<longrightarrow>
      chartInstances (clickChart7 s) i = chartInstances s i"
    by (simp add: clickChart7_outside)
  show ?thesis
    unfolding ev selected_timeframe_def step.simps
    using charts outside clickChart7_frame [of s]
    by (simp add: clickChart7_same drawChart_retained)
next
  assume ev: "ev = ClickChart30"
  have charts: "chartTimeframe s \<noteq> TF30d \<and>
          (\<forall>i<length (coinsData s). i \<in> set (tableCanvases s)) \<longrightarrow>
            (\<forall>i<length (coinsData s).
               chartInstances (clickChart30 s) i = Some (drawChart TF30d (coinsData s ! i)))"
    using clickChart30_charts [of s] by blast
  have outside: "\<forall>i. length (coinsData s) \<le> i \<longrightarrow>
      chartInstances (clickChart30 s) i = chartInstances s i"
    by (simp add: clickChart30_outside)
  show ?thesis
    unfolding ev selected_timeframe_def step.simps
    using charts outside clickChart30_frame [of s]
    by (simp add: clickChart30_same drawChart_retained)
qed

text \<open>
  The theorem at a click on the 30-day button after one complete cycle: the chart of
  the one record changes to its fifteen 30-day points.
\<close>

theorem timeframe_switch_witness:
  "(ClickChart30 = ClickChart7 \<or> ClickChart30 = ClickChart30) \<and>
   chartTimeframe (run page_loaded shown_cycle) = TF7d \<and>
   length (coinsData (run page_loaded shown_cycle)) = 1 \<and>
   tableCanvases (run page_loaded shown_cycle) = [0] \<and>
   prices30 (coinsData (run page_loaded shown_cycle) ! 0) =
     [1, 2, 3, 4, 5, 6, 7, 8, 9, 10, 11, 12, 13, 14, 15] \<and>
   requests (step (run page_loaded shown_cycle) ClickChart30) =
     requests (run page_loaded shown_cycle) \<and>
   coinsData (step (run page_loaded shown_cycle) ClickChart30) =
     coinsData (run page_loaded shown_cycle) \<and>
   chartTimeframe (step (run page_loaded shown_cycle) ClickChart30) = TF30d \<and>
   chartInstances (step (run page_loaded shown_cycle) ClickChart30) 0 =
     Some \<lparr>chartData = [1, 2, 3, 4, 5, 6, 7, 8, 9, 10, 11, 12, 13, 14, 15],
           borderColor = green\<rparr>"
proof -
  let ?s = "run page_loaded shown_cycle"
  have tf: "chartTimeframe ?s = TF7d" by code_simp
  have len: "length (coinsData ?s) = 1" by code_simp
  have cv: "tableCanvases ?s = [0]" by code_simp
  have p30: "prices30 (coinsData ?s ! 0) = [1, 2, 3, 4, 5, 6, 7, 8, 9, 10, 11, 12, 13, 14, 15]"
    by code_simp
  have all: "\<forall>i<length (coinsData ?s). i \<in> set (tableCanvases ?s)"
    by (simp add: len cv)
  note t = timeframe_switch [of ClickChart30 ?s]
  from t have frame: "requests (step ?s ClickChart30) = requests ?s \<and>
      coinsData (step ?s ClickChart30) = coinsData ?s \<and>
      chartTimeframe (step ?s ClickChart30) = TF30d"
    by (simp add: selected_timeframe_def)
  from t tf all have "\<forall>i<length (coinsData ?s).
      chartInstances (step ?s ClickChart30) i = Some
        (if prices30 (coinsData ?s ! i) \<noteq> []
         then \<lparr>chartData = prices30 (coinsData ?s ! i),
               borderColor =
                 (if hd (prices30 (coinsData ?s ! i)) \<le> last (prices30 (coinsData ?s ! i))
                  then green else red)\<rparr>
         else \<lparr>chartData =
                 (case sparkline_in_7d (base (coinsData ?s ! i)) of Some p \<Rightarrow> p | None \<Rightarrow> []),
               borderColor =
                 (case price_change_percentage_24h (base (coinsData ?s ! i)) of
                    None \<Rightarrow> green
                  | Some p \<Rightarrow> if 0 \<le> p then green else red)\<rparr>)"
    by (simp add: selected_timeframe_def)
  then have "chartInstances (step ?s ClickChart30) 0 =
     Some \<lparr>chartData = [1, 2, 3, 4, 5, 6, 7, 8, 9, 10, 11, 12, 13, 14, 15],
           borderColor = green\<rparr>"
    by (simp add: len p30)
  with tf len cv p30 frame show ?thesis by simp
qed

text \<open>
  C9 as stated fails while a refresh is in progress: the table body is empty, so the
  handler finds no canvas; the timeframe changes to 30 days, but the chart of the held
  record stays the 7-day chart although the record holds its 30-day series.
\<close>

theorem timeframe_switch_refresh_counterexample:
  "tableCanvases (run page_loaded refresh_started) = [] \<and>
   chartTimeframe (run page_loaded refresh_started) = TF7d \<and>
   prices30 (coinsData (run page_loaded refresh_started) ! 0) =
     [1, 2, 3, 4, 5, 6, 7, 8, 9, 10, 11, 12, 13, 14, 15] \<and>
   chartTimeframe (step (run page_loaded refresh_started) ClickChart30) = TF30d \<and>
   chartInstances (step (run page_loaded refresh_started) ClickChart30) 0 =
     Some \<lparr>chartData = [7, 8], borderColor = green\<rparr>"
  by code_simp

lemma map_of_drop_cycle: "map_of (drop_cycle k cs) k = None"
  by (induction cs) (auto simp: drop_cycle_def)

text \<open>
  Claim C2, as the code has it. When the snapshot request of a cycle fails, the cycle
  ends in the \<^verbatim>\<open>catch\<close> block: the loading element shows the error message, no
  request is sent and no timer is armed or cancelled. So when the timer of an idle
  page fires and the snapshot request of that cycle fails, no timer is pending
  afterwards, no cycle is in flight, and no later timer event changes anything.
\<close>

theorem snapshot_failure_stops_loop:
  "(map_of (inflight s) k = Some c \<and> cycleData c = None \<longrightarrow>
      (let s' = step s (SnapshotArrives k TransportError)
       in loadingText s' = error_message \<and> liveTimers s' = liveTimers s \<and>
          refreshTimer s' = refreshTimer s \<and> nextTimer s' = nextTimer s \<and>
          requests s' = requests s \<and> map_of (inflight s') k = None)) \<and>
   (liveTimers s = [t] \<and> refreshTimer s = Some t \<and> inflight s = [] \<longrightarrow>
      (let s' = run s [TimerFires t, SnapshotArrives (nextCycle s) TransportError]
       in loadingText s' = error_message \<and> liveTimers s' = [] \<and>
          refreshTimer s' = None \<and> inflight s' = [] \<and>
          requests s' = requests s @ [SnapshotRequest (currentOrder s)] \<and>
          (\<forall>u. step s' (TimerFires u) = s')))"
proof (intro conjI impI)
  assume "map_of (inflight s) k = Some c \<and> cycleData c = None"
  then show "let s' = step s (SnapshotArrives k TransportError)
       in loadingText s' = error_message \<and> liveTimers s' = liveTimers s \<and>
          refreshTimer s' = refreshTimer s \<and> nextTimer s' = nextTimer s \<and>
          requests s' = requests s \<and> map_of (inflight s') k = None"
    by (simp add: snapshotArrives_def map_of_drop_cycle)
next
  assume "liveTimers s = [t] \<and> refreshTimer s = Some t \<and> inflight s = []"
  then show "let s' = run s [TimerFires t, SnapshotArrives (nextCycle s) TransportError]
       in loadingText s' = error_message \<and> liveTimers s' = [] \<and>
          refreshTimer s' = None \<and> inflight s' = [] \<and>
          requests s' = requests s @ [SnapshotRequest (currentOrder s)] \<and>
          (\<forall>u. step s' (TimerFires u) = s')"
    by (simp add: run_def timerFires_def fetchData_def snapshotArrives_def drop_cycle_def Let_def)
qed

text \<open>The theorem at the page after one complete cycle, whose timer 1 is pending.\<close>

theorem snapshot_failure_stops_loop_witness:
  "liveTimers (run page_loaded first_cycle) = [1] \<and>
   refreshTimer (run page_loaded first_cycle) = Some 1 \<and>
   inflight (run page_loaded first_cycle) = [] \<and>
   liveTimers (run (run page_loaded first_cycle)
      [TimerFires 1, SnapshotArrives (nextCycle (run page_loaded first_cycle)) TransportError]) = [] \<and>
   loadingText (run (run page_loaded first_cycle)
      [TimerFires 1, SnapshotArrives (nextCycle (run page_loaded first_cycle)) TransportError])
     = error_message"
proof -
  have h: "liveTimers (run page_loaded first_cycle) = [1] \<and>
      refreshTimer (run page_loaded first_cycle) = Some 1 \<and>
      inflight (run page_loaded first_cycle) = []"
    by code_simp
  from snapshot_failure_stops_loop [of "run page_loaded first_cycle" _ _ 1] h
  show ?thesis by (simp add: Let_def)
qed

text \<open>
  C2 as stated fails: after the first cycle has failed, the error message is shown
  but no timer is pending, and the log of requests stays at the one failed request.
\<close>

theorem snapshot_failure_counterexample:
  "loadingText (run page_loaded [DOMContentLoaded, SnapshotArrives 0 TransportError])
     = error_message \<and>
   refreshTimer (run page_loaded [DOMContentLoaded, SnapshotArrives 0 TransportError]) = None \<and>
   liveTimers (run page_loaded [DOMContentLoaded, SnapshotArrives 0 TransportError]) = [] \<and>
   inflight (run page_loaded [DOMContentLoaded, SnapshotArrives 0 TransportError]) = [] \<and>
   requests (run page_loaded
      [DOMContentLoaded, SnapshotArrives 0 TransportError, TimerFires 1]) =
     [SnapshotRequest MARKET_CAP_DESC]"
  by code_simp

text \<open>
  Claim C1 at the sample trace. After the click on the volume button two activations
  of \<^verbatim>\<open>fetchData\<close> wait for their snapshot, and two snapshot requests have been sent.
  When the older activation finishes last, the record set is the one it fetched for
  the market-cap order although the current order is by volume; both activations have
  armed a timer and both have appended their row to the table.
\<close>

theorem order_switch_overlaps:
  "fetching (run page_loaded [DOMContentLoaded, ClickVolume]) = 2 \<and>
   requests (run page_loaded [DOMContentLoaded, ClickVolume]) =
     [SnapshotRequest MARKET_CAP_DESC, SnapshotRequest VOLUME_DESC] \<and>
   currentOrder (run page_loaded overlap_trace) = VOLUME_DESC \<and>
   coinsOrder (run page_loaded overlap_trace) = Some MARKET_CAP_DESC \<and>
   map (\<lambda>e. coin_id (base e)) (coinsData (run page_loaded overlap_trace)) = [''m''] \<and>
   liveTimers (run page_loaded overlap_trace) = [1, 2] \<and>
   tableCanvases (run page_loaded overlap_trace) = [0, 0]"
  by code_simp

end
